theory Spec2Isabelle
  imports Main
begin

section \<open>JavaScript values and the string primitives the handlers call\<close>

text \<open>
  A form field holds a string or a number, or is \<open>undefined\<close>; \<open>NaN\<close> is a number
  of its own.
  Numbers are modelled by unbounded integers: every number the handlers compute is
  an identifier or is passed through \<open>Math.min(10, _)\<close>, so the rounding of large
  doubles is never observable.
\<close>

datatype jsnum = NaN | Fin int

datatype jsval = JUndefined | JNum jsnum | JStr string

datatype js_error = TypeError

text \<open>A plain object with computed keys, as in \<open>{...form, [name]: newValue}\<close>.\<close>

type_synonym obj = "string \<rightharpoonup> jsval"

text \<open>The character classes of the regular expressions: \<open>[0-9]\<close>, \<open>[a-zA-Z]\<close>, \<open>\s\<close>.\<close>

definition code :: "char \<Rightarrow> nat" where
  "code c = of_char c"

definition is_digit :: "char \<Rightarrow> bool" where
  "is_digit c = (code (CHR ''0'') \<le> code c \<and> code c \<le> code (CHR ''9''))"

definition is_letter :: "char \<Rightarrow> bool" where
  "is_letter c =
     ((code (CHR ''a'') \<le> code c \<and> code c \<le> code (CHR ''z'')) \<or>
      (code (CHR ''A'') \<le> code c \<and> code c \<le> code (CHR ''Z'')))"

definition is_space :: "char \<Rightarrow> bool" where
  "is_space c = (code c \<in> {9, 10, 11, 12, 13, 32, 160})"

text \<open>
  \<open>s.replace(/[^C]/g, '')\<close> for a character class \<open>C\<close>: a left-to-right scan that
  drops every character outside the class.
\<close>

primrec replace_outside :: "(char \<Rightarrow> bool) \<Rightarrow> string \<Rightarrow> string" where
  "replace_outside cls [] = []"
| "replace_outside cls (c # cs) =
     (if cls c then c # replace_outside cls cs else replace_outside cls cs)"

text \<open>
  \<open>s.substring(a, b)\<close> on non-negative indices: both are clamped to the length and
  swapped when \<open>a > b\<close>.
\<close>

definition substring :: "nat \<Rightarrow> nat \<Rightarrow> string \<Rightarrow> string" where
  "substring a b s =
     (let a' = min a (length s); b' = min b (length s);
          lo = min a' b'; hi = max a' b'
      in take (hi - lo) (drop lo s))"


subsection \<open>Numbers: \<open>parseInt\<close>, \<open>Math.min\<close>, \<open>Math.max\<close>, \<open>||\<close>, \<open>toString\<close>\<close>

definition digit_val :: "char \<Rightarrow> int" where
  "digit_val c = int (code c) - 48"

text \<open>The value of a run of decimal digits, most significant first.\<close>

primrec digits_value :: "int \<Rightarrow> string \<Rightarrow> int" where
  "digits_value acc [] = acc"
| "digits_value acc (c # cs) = digits_value (10 * acc + digit_val c) cs"

text \<open>
  \<open>parseInt(s)\<close> with the default radix: leading white space is skipped, a sign is
  read, then the longest run of decimal digits; no digit at all gives \<open>NaN\<close>. The
  hexadecimal prefix \<open>0x\<close> is left out: the handlers call \<open>parseInt\<close> only on a
  string from which every non-digit has been removed.
\<close>

definition parseInt :: "string \<Rightarrow> jsnum" where
  "parseInt s =
     (let s1 = dropWhile is_space s;
          (sign, s2) = (case s1 of
                          c # r \<Rightarrow> if c = CHR ''-'' then (- 1, r)
                                   else if c = CHR ''+'' then (1, r) else (1, s1)
                        | [] \<Rightarrow> (1, s1));
          ds = takeWhile is_digit s2
      in if ds = [] then NaN else Fin (sign * digits_value 0 ds))"

text \<open>\<open>Math.min\<close> and \<open>Math.max\<close> of two numbers: \<open>NaN\<close> if either argument is.\<close>

fun math_min :: "jsnum \<Rightarrow> jsnum \<Rightarrow> jsnum" where
  "math_min (Fin a) (Fin b) = Fin (min a b)"
| "math_min _ _ = NaN"

fun math_max :: "jsnum \<Rightarrow> jsnum \<Rightarrow> jsnum" where
  "math_max (Fin a) (Fin b) = Fin (max a b)"
| "math_max _ _ = NaN"

text \<open>Truthiness, and \<open>a || b\<close>: the first operand if it is truthy, else the second.\<close>

fun truthy :: "jsval \<Rightarrow> bool" where
  "truthy JUndefined = False"
| "truthy (JNum NaN) = False"
| "truthy (JNum (Fin n)) = (n \<noteq> 0)"
| "truthy (JStr s) = (s \<noteq> [])"

definition js_or :: "jsval \<Rightarrow> jsval \<Rightarrow> jsval" where
  "js_or a b = (if truthy a then a else b)"

text \<open>\<open>n.toString()\<close> of an integer: its decimal digits, with a minus sign if negative.\<close>

definition digit_char :: "nat \<Rightarrow> char" where
  "digit_char d = char_of (48 + d)"

fun nat_toString :: "nat \<Rightarrow> string" where
  "nat_toString n =
     (if n < 10 then [digit_char n] else nat_toString (n div 10) @ [digit_char (n mod 10)])"

declare nat_toString.simps [simp del]

definition int_toString :: "int \<Rightarrow> string" where
  "int_toString i = (if i < 0 then CHR ''-'' # nat_toString (nat (- i)) else nat_toString (nat i))"

fun toString :: "jsval \<Rightarrow> string" where
  "toString JUndefined = ''undefined''"
| "toString (JNum NaN) = ''NaN''"
| "toString (JNum (Fin i)) = int_toString i"
| "toString (JStr s) = s"


subsection \<open>Strings: \<open>toLowerCase\<close>, \<open>includes\<close>, \<open>split\<close>\<close>

text \<open>
  Characters are code units below 256. \<open>toLowerCase\<close> maps \<open>A\<close>-\<open>Z\<close> and the
  upper-case letters of Latin-1 to their lower-case forms.
\<close>

definition lower_char :: "char \<Rightarrow> char" where
  "lower_char c =
     (if (65 \<le> code c \<and> code c \<le> 90) \<or> (192 \<le> code c \<and> code c \<le> 222 \<and> code c \<noteq> 215)
      then char_of (code c + 32) else c)"

definition toLowerCase :: "string \<Rightarrow> string" where
  "toLowerCase s = map lower_char s"

text \<open>\<open>s.includes(t)\<close>: \<open>t\<close> occurs in \<open>s\<close> at some position.\<close>

fun starts_with :: "string \<Rightarrow> string \<Rightarrow> bool" where
  "starts_with s [] = True"
| "starts_with [] (c # cs) = False"
| "starts_with (x # xs) (c # cs) = (x = c \<and> starts_with xs cs)"

fun js_includes :: "string \<Rightarrow> string \<Rightarrow> bool" where
  "js_includes [] t = (t = [])"
| "js_includes (x # xs) t = (starts_with (x # xs) t \<or> js_includes xs t)"

text \<open>\<open>s.split(sep)\<close> for a one-character separator; the result is never empty.\<close>

fun split_on :: "char \<Rightarrow> string \<Rightarrow> string list" where
  "split_on sep [] = [[]]"
| "split_on sep (c # cs) =
     (if c = sep then [] # split_on sep cs
      else (case split_on sep cs of
              p # ps \<Rightarrow> (c # p) # ps
            | [] \<Rightarrow> [[c]]))"

text \<open>\<open>xs[0]\<close> on an array of strings: \<open>undefined\<close> when the array is empty.\<close>

definition first_element :: "string list \<Rightarrow> jsval" where
  "first_element xs = (case xs of [] \<Rightarrow> JUndefined | x # _ \<Rightarrow> JStr x)"

section \<open>Entities as read from the API\<close>

record profesor =
  profesor_id :: nat
  profesor_dni :: string
  profesor_nombre :: string
  profesor_apellido :: string
  profesor_email :: string
  profesor_profesion :: string
  profesor_telefono :: string

record estudiante =
  estudiante_id :: nat
  estudiante_dni :: string
  estudiante_nombre :: string
  estudiante_apellido :: string
  estudiante_email :: string

record curso =
  curso_id :: nat
  curso_nombre :: string
  curso_descripcion :: string
  curso_profesor :: "profesor option"

record inscripcion =
  inscripcion_id :: nat
  inscripcion_curso :: curso
  inscripcion_estudiante :: estudiante
  inscripcion_nota :: jsval
  inscripcion_fecha :: string

text \<open>The object a \<open>profesor\<close> is in JavaScript, as \<open>setForm(profesor)\<close> stores it.\<close>

definition profesor_obj :: "profesor \<Rightarrow> obj" where
  "profesor_obj p =
     [''id'' \<mapsto> JNum (Fin (int (profesor_id p))),
      ''dni'' \<mapsto> JStr (profesor_dni p),
      ''nombre'' \<mapsto> JStr (profesor_nombre p),
      ''apellido'' \<mapsto> JStr (profesor_apellido p),
      ''email'' \<mapsto> JStr (profesor_email p),
      ''profesion'' \<mapsto> JStr (profesor_profesion p),
      ''telefono'' \<mapsto> JStr (profesor_telefono p)]"

section \<open>Profesores: component state and handlers\<close>

text \<open>
  The remote API is outside the program: each awaited call either resolves with
  data or rejects, and the outcome is an argument of the handler. \<open>Rejected\<close> carries
  the text the handler may append to its message. A handler returns the effects it
  issues, in order, and the state after all its \<open>set...\<close> calls.
\<close>

datatype 'a outcome = Resolved 'a | Rejected string

datatype effect =
    ApiGet string
  | ApiPost string obj
  | ApiPut string obj
  | ApiDelete string
  | ClearTimeout
  | SetTimeout nat

record profesor_search =
  search_dni :: string
  search_nombre :: string
  search_apellido :: string
  search_email :: string
  search_profesion :: string
  search_telefono :: string

text \<open>
  The \<open>useState\<close> cells of the component; each field \<open>st_x\<close> is the cell \<open>x\<close> of the
  source. The timer handle \<open>timeoutId\<close> is represented by the effects that clear and
  set the timer.
\<close>

record profesores_state =
  st_profesores :: "profesor list"
  st_editing :: "nat option"
  st_form :: obj
  st_error :: "string option"
  st_open :: bool
  st_idEliminar :: "nat option"
  st_search :: profesor_search

text \<open>The empty payload that \<open>useState\<close> and a successful submit put in the form.\<close>

definition empty_form :: obj where
  "empty_form =
     [''dni'' \<mapsto> JStr [], ''nombre'' \<mapsto> JStr [], ''apellido'' \<mapsto> JStr [],
      ''email'' \<mapsto> JStr [], ''profesion'' \<mapsto> JStr [], ''telefono'' \<mapsto> JStr []]"

text \<open>\<open>if (editing)\<close>: \<open>null\<close> and the number 0 are falsy.\<close>

definition is_editing :: "nat option \<Rightarrow> bool" where
  "is_editing e = (case e of None \<Rightarrow> False | Some i \<Rightarrow> i \<noteq> 0)"

text \<open>An identifier inside a template string: \<open>null\<close> prints as \<open>null\<close>.\<close>

definition id_text :: "nat option \<Rightarrow> string" where
  "id_text e = (case e of None \<Rightarrow> ''null'' | Some i \<Rightarrow> nat_toString i)"

definition loadProfesores ::
  "profesor list outcome \<Rightarrow> profesores_state \<Rightarrow> effect list \<times> profesores_state" where
  "loadProfesores response s =
     ([ApiGet ''/profesores''],
      (case response of
         Resolved data \<Rightarrow> s\<lparr>st_profesores := data\<rparr>
       | Rejected _ \<Rightarrow> s))"

definition handleSubmit ::
  "unit outcome \<Rightarrow> profesor list outcome \<Rightarrow> profesores_state
     \<Rightarrow> effect list \<times> profesores_state" where
  "handleSubmit written listed s =
     (let call = (if is_editing (st_editing s)
                  then ApiPut (''/profesores/'' @ id_text (st_editing s)) (st_form s)
                  else ApiPost ''/profesores'' (st_form s))
      in case written of
           Resolved _ \<Rightarrow>
             (let (loaded, s1) = loadProfesores listed s
              in (call # loaded, s1\<lparr>st_form := empty_form, st_editing := None, st_error := None\<rparr>))
         | Rejected _ \<Rightarrow>
             ([call],
              s\<lparr>st_error := Some ''Error al guardar profesor. Verifica que los datos sean correctos.''\<rparr>))"

definition handleEdit :: "profesor \<Rightarrow> profesores_state \<Rightarrow> effect list \<times> profesores_state" where
  "handleEdit profesor s = ([], s\<lparr>st_editing := Some (profesor_id profesor), st_form := profesor_obj profesor\<rparr>)"

text \<open>The \<open>Cancelar\<close> button of the form: \<open>onClick={() => setEditing(null)}\<close>.\<close>

definition cancelar_onClick :: "profesores_state \<Rightarrow> effect list \<times> profesores_state" where
  "cancelar_onClick s = ([], s\<lparr>st_editing := None\<rparr>)"

definition handleDelete :: "nat \<Rightarrow> profesores_state \<Rightarrow> effect list \<times> profesores_state" where
  "handleDelete i s = ([], s\<lparr>st_idEliminar := Some i, st_open := True\<rparr>)"

text \<open>
  \<open>eliminarProfesor\<close>, the dialog's \<open>Eliminar\<close> button. In the failure message \<open>+\<close>
  binds tighter than \<open>||\<close>, so the fallback text is never used.
\<close>

definition eliminarProfesor ::
  "unit outcome \<Rightarrow> profesor list outcome \<Rightarrow> profesores_state
     \<Rightarrow> effect list \<times> profesores_state" where
  "eliminarProfesor deleted listed s =
     (let call = ApiDelete (''/profesores/'' @ id_text (st_idEliminar s))
      in case deleted of
           Resolved _ \<Rightarrow>
             (let (loaded, s1) = loadProfesores listed s
              in (call # loaded @ [ClearTimeout, SetTimeout 3000],
                  s1\<lparr>st_open := False,
                      st_error := Some (''Profesor eliminado con '' @ [char_of (233 :: nat)] @ ''xito'')\<rparr>))
         | Rejected data \<Rightarrow>
             ([call, ClearTimeout, SetTimeout 3000],
              s\<lparr>st_error := Some (''No se pudo eliminar el profesor: '' @ data), st_open := False\<rparr>))"

text \<open>The \<open>Cancelar\<close> button of the dialog: \<open>onClick={() => setOpen(false)}\<close>.\<close>

definition dialog_cancelar_onClick :: "profesores_state \<Rightarrow> effect list \<times> profesores_state" where
  "dialog_cancelar_onClick s = ([], s\<lparr>st_open := False\<rparr>)"

text \<open>The table shows \<open>filteredProfesores\<close>, recomputed from the list and the search fields.\<close>

definition filteredProfesores :: "profesor list \<Rightarrow> profesor_search \<Rightarrow> profesor list" where
  "filteredProfesores all_profesores q =
     filter (\<lambda>profesor.
        js_includes (toLowerCase (profesor_dni profesor)) (toLowerCase (search_dni q)) \<and>
        js_includes (toLowerCase (profesor_nombre profesor)) (toLowerCase (search_nombre q)) \<and>
        js_includes (toLowerCase (profesor_apellido profesor)) (toLowerCase (search_apellido q)) \<and>
        js_includes (toLowerCase (profesor_email profesor)) (toLowerCase (search_email q)) \<and>
        js_includes (toLowerCase (profesor_profesion profesor)) (toLowerCase (search_profesion q)) \<and>
        js_includes (toLowerCase (profesor_telefono profesor)) (toLowerCase (search_telefono q)))
       all_profesores"

section \<open>Profesores: the form's change handler\<close>

text \<open>
  \<open>handleChange\<close> of \<open>Profesores\<close>. The event carries the input's name and its raw
  value; all six inputs are text fields. The e-mail case replaces the matches of a
  multi-part regular expression; what the regex engine returns for that pattern is
  the parameter \<open>email_rx\<close>, since no property below depends on it. A value that is not
  a string has no \<open>replace\<close> method, which raises a \<open>TypeError\<close>.
\<close>

definition profesores_handleChange ::
  "(string \<Rightarrow> string) \<Rightarrow> string \<Rightarrow> jsval \<Rightarrow> obj \<Rightarrow> js_error + obj" where
  "profesores_handleChange email_rx name value form =
     (if name = ''dni'' then
        (case value of JUndefined \<Rightarrow> Inl TypeError | JNum _ \<Rightarrow> Inl TypeError
         | JStr v \<Rightarrow>
             let newValue = replace_outside is_digit v;
                 newValue = substring 0 8 newValue
             in Inr (form(name \<mapsto> JStr newValue)))
      else if name \<in> {''nombre'', ''profesion'', ''apellido''} then
        (case value of JUndefined \<Rightarrow> Inl TypeError | JNum _ \<Rightarrow> Inl TypeError
         | JStr v \<Rightarrow>
             let newValue = replace_outside (\<lambda>c. is_letter c \<or> is_space c) v
             in Inr (form(name \<mapsto> JStr newValue)))
      else if name = ''email'' then
        (case value of JUndefined \<Rightarrow> Inl TypeError | JNum _ \<Rightarrow> Inl TypeError
         | JStr v \<Rightarrow>
             let newValue = email_rx v;
                 newValue = substring 0 100 newValue
             in Inr (form(name \<mapsto> JStr newValue)))
      else if name = ''telefono'' then
        (case value of JUndefined \<Rightarrow> Inl TypeError | JNum _ \<Rightarrow> Inl TypeError
         | JStr v \<Rightarrow>
             let newValue = replace_outside is_digit v;
                 newValue = substring 0 20 newValue
             in Inr (form(name \<mapsto> JStr newValue)))
      else Inr (form(name \<mapsto> value)))"


section \<open>Inscripciones: the form's change handler\<close>

text \<open>
  \<open>handleChange\<close> of \<open>Inscripciones\<close> (the component with the search panel and the
  delete dialog). Only the grade field is normalised; the two selectors and the
  date field store the raw value.
\<close>

definition inscripciones_handleChange :: "string \<Rightarrow> jsval \<Rightarrow> obj \<Rightarrow> js_error + obj" where
  "inscripciones_handleChange name value form =
     (if name = ''nota'' then
        (case value of JUndefined \<Rightarrow> Inl TypeError | JNum _ \<Rightarrow> Inl TypeError
         | JStr v \<Rightarrow>
             let newValue = replace_outside is_digit v;
                 newValue = js_or (JNum (math_max (Fin 0) (math_min (Fin 10) (parseInt newValue))))
                                  (JStr [])
             in Inr (form(name \<mapsto> newValue)))
      else Inr (form(name \<mapsto> value)))"

text \<open>
  The older copy of the component (\<open>src/components/Inscripciones.js\<close>, without search
  panel or delete dialog) has a \<open>handleChange\<close> that stores every raw value as it is:
  \<open>setForm({...form, [e.target.name]: e.target.value})\<close>.
\<close>

definition inscripciones_legacy_handleChange :: "string \<Rightarrow> jsval \<Rightarrow> obj \<Rightarrow> obj" where
  "inscripciones_legacy_handleChange name value form = form(name \<mapsto> value)"

section \<open>Cursos: the form's change handler\<close>

text \<open>
  \<open>handleChange\<close> of \<open>Cursos\<close>. In the \<open>nombre\<close> case the second assignment reads
  \<open>value\<close>, not \<open>newValue\<close>, exactly as the source does.
\<close>

definition cursos_handleChange :: "string \<Rightarrow> jsval \<Rightarrow> obj \<Rightarrow> js_error + obj" where
  "cursos_handleChange name value form =
     (if name = ''nombre'' then
        (case value of JUndefined \<Rightarrow> Inl TypeError | JNum _ \<Rightarrow> Inl TypeError
         | JStr v \<Rightarrow>
             let newValue = replace_outside (\<lambda>c. is_letter c \<or> is_space c) v;
                 newValue = substring 0 50 v
             in Inr (form(name \<mapsto> JStr newValue)))
      else if name = ''descripcion'' then
        (case value of JUndefined \<Rightarrow> Inl TypeError | JNum _ \<Rightarrow> Inl TypeError
         | JStr v \<Rightarrow>
             let newValue = substring 0 200 v
             in Inr (form(name \<mapsto> JStr newValue)))
      else Inr (form(name \<mapsto> value)))"

text \<open>
  \<open>handleSearchChange\<close> of \<open>Cursos\<close>, the sibling handler of the search panel: here
  the truncation is applied to the stripped string.
\<close>

definition cursos_handleSearchChange :: "string \<Rightarrow> jsval \<Rightarrow> obj \<Rightarrow> js_error + obj" where
  "cursos_handleSearchChange name value search =
     (if name = ''nombre'' then
        (case value of JUndefined \<Rightarrow> Inl TypeError | JNum _ \<Rightarrow> Inl TypeError
         | JStr v \<Rightarrow>
             let newValue = replace_outside (\<lambda>c. is_letter c \<or> is_space c) v;
                 newValue = substring 0 50 newValue
             in Inr (search(name \<mapsto> JStr newValue)))
      else if name = ''descripcion'' then
        (case value of JUndefined \<Rightarrow> Inl TypeError | JNum _ \<Rightarrow> Inl TypeError
         | JStr v \<Rightarrow>
             let newValue = substring 0 200 v
             in Inr (search(name \<mapsto> JStr newValue)))
      else Inr (search(name \<mapsto> value)))"

section \<open>Cursos: the filtered list\<close>

text \<open>
  The search panel of \<open>Cursos\<close>: two text fields and a selector whose options carry
  \<open>''\<close> or \<open>profesor.id.toString()\<close>. \<open>curso.profesor?.id.toString()\<close> is
  \<open>undefined\<close> for a course without a teacher, and \<open>undefined === s\<close> is false for
  every string \<open>s\<close>.
\<close>

record curso_search =
  search_curso_nombre :: string
  search_curso_descripcion :: string
  search_profesorId :: string

definition filteredCursos :: "curso list \<Rightarrow> curso_search \<Rightarrow> curso list" where
  "filteredCursos cursos q =
     filter (\<lambda>curso.
        js_includes (toLowerCase (curso_nombre curso)) (toLowerCase (search_curso_nombre q)) \<and>
        js_includes (toLowerCase (curso_descripcion curso))
          (toLowerCase (search_curso_descripcion q)) \<and>
        (search_profesorId q = [] \<or>
         (case curso_profesor curso of
            None \<Rightarrow> False
          | Some profesor \<Rightarrow> nat_toString (profesor_id profesor) = search_profesorId q)))
       cursos"

section \<open>Inscripciones: starting an edit\<close>

text \<open>
  \<open>handleEdit\<close> of \<open>Inscripciones\<close> (the same in both copies of the component): the
  values it passes to \<open>setEditing\<close> and to \<open>setForm\<close>.
\<close>

definition inscripciones_handleEdit :: "inscripcion \<Rightarrow> nat option \<times> obj" where
  "inscripciones_handleEdit inscripcion =
     (Some (inscripcion_id inscripcion),
      [''cursoId'' \<mapsto> JNum (Fin (int (curso_id (inscripcion_curso inscripcion)))),
       ''estudianteId'' \<mapsto> JNum (Fin (int (estudiante_id (inscripcion_estudiante inscripcion)))),
       ''nota'' \<mapsto> inscripcion_nota inscripcion,
       ''fecha'' \<mapsto> first_element (split_on (CHR ''T'') (inscripcion_fecha inscripcion))])"

section \<open>The filter predicate as the specification words it\<close>

text \<open>
  Case-insensitive substring containment: some stretch of the field equals the
  search text up to letter case.
\<close>

definition spec_contains_ci :: "string \<Rightarrow> string \<Rightarrow> bool" where
  "spec_contains_ci field q =
     (\<exists>before mid after. field = before @ mid @ after \<and> toLowerCase mid = toLowerCase q)"

definition spec_matches_profesor :: "profesor_search \<Rightarrow> profesor \<Rightarrow> bool" where
  "spec_matches_profesor q p =
     (spec_contains_ci (profesor_dni p) (search_dni q) \<and>
      spec_contains_ci (profesor_nombre p) (search_nombre q) \<and>
      spec_contains_ci (profesor_apellido p) (search_apellido q) \<and>
      spec_contains_ci (profesor_email p) (search_email q) \<and>
      spec_contains_ci (profesor_profesion p) (search_profesion q) \<and>
      spec_contains_ci (profesor_telefono p) (search_telefono q))"

text \<open>
  A reference filter is skipped when empty; otherwise it names an identifier and
  matches the courses whose teacher has exactly that identifier.
\<close>

definition spec_reference_matches :: "string \<Rightarrow> profesor option \<Rightarrow> bool" where
  "spec_reference_matches ref teacher =
     (ref = [] \<or> (\<exists>k p. ref = nat_toString k \<and> teacher = Some p \<and> profesor_id p = k))"

definition spec_matches_curso :: "curso_search \<Rightarrow> curso \<Rightarrow> bool" where
  "spec_matches_curso q c =
     (spec_contains_ci (curso_nombre c) (search_curso_nombre q) \<and>
      spec_contains_ci (curso_descripcion c) (search_curso_descripcion q) \<and>
      spec_reference_matches (search_profesorId q) (curso_profesor c))"

text \<open>Which effects are delete calls.\<close>

fun is_delete_call :: "effect \<Rightarrow> bool" where
  "is_delete_call (ApiDelete _) = True"
| "is_delete_call _ = False"

section \<open>Properties\<close>

lemma replace_outside_filter: "replace_outside cls s = filter cls s"
  by (induction s) simp_all

lemma substring_from_0: "substring 0 n s = take n s"
  by (simp add: substring_def Let_def min_def)

subsection \<open>Decimal digits: \<open>toString\<close> and \<open>parseInt\<close> are inverse\<close>

lemma digit_val_digit_char: "d < 10 \<Longrightarrow> digit_val (digit_char d) = int d"
  by (simp add: digit_val_def digit_char_def code_def)

lemma is_digit_digit_char: "d < 10 \<Longrightarrow> is_digit (digit_char d)"
  by (simp add: is_digit_def digit_char_def code_def)

lemma digits_value_snoc: "digits_value acc (cs @ [c]) = 10 * digits_value acc cs + digit_val c"
  by (induction cs arbitrary: acc) simp_all

lemma nat_toString_digits: "list_all is_digit (nat_toString n)"
  by (induction n rule: nat_toString.induct)
     (subst nat_toString.simps, simp add: is_digit_digit_char)

lemma nat_toString_nonempty: "nat_toString n \<noteq> []"
  by (subst nat_toString.simps) simp

lemma digits_value_nat_toString: "digits_value 0 (nat_toString n) = int n"
proof (induction n rule: nat_toString.induct)
  case (1 n)
  show ?case
  proof (cases "n < 10")
    case True
    then show ?thesis
      by (subst nat_toString.simps) (simp add: digit_val_digit_char)
  next
    case False
    with 1 have "digits_value 0 (nat_toString (n div 10)) = int (n div 10)" by simp
    moreover have "int n = 10 * int (n div 10) + int (n mod 10)"
      by (simp add: zdiv_int zmod_int)
    ultimately show ?thesis using False
      by (subst nat_toString.simps) (simp add: digits_value_snoc digit_val_digit_char)
  qed
qed

lemma parseInt_digits:
  "list_all is_digit ds \<Longrightarrow> ds \<noteq> [] \<Longrightarrow> parseInt ds = Fin (digits_value 0 ds)"
proof -
  assume all: "list_all is_digit ds" and ne: "ds \<noteq> []"
  then obtain c r where ds: "ds = c # r" by (cases ds) auto
  with all have c: "is_digit c" by simp
  then have nsp: "\<not> is_space c" and nm: "c \<noteq> CHR ''-''" and np: "c \<noteq> CHR ''+''"
    by (auto simp: is_digit_def is_space_def code_def)
  have tw: "takeWhile is_digit ds = ds"
    using all by (simp add: list_all_iff)
  show ?thesis
    using nsp nm np tw ne by (simp add: parseInt_def ds)
qed

lemma nota_of_digits:
  "list_all is_digit ds \<Longrightarrow> ds \<noteq> [] \<Longrightarrow>
   inscripciones_handleChange ''nota'' (JStr ds) form =
     Inr (form(''nota'' \<mapsto> (if digits_value 0 ds \<le> 0 then JStr [] else JNum (Fin (min 10 (digits_value 0 ds))))))"
  by (auto simp add: inscripciones_handleChange_def replace_outside_filter parseInt_digits js_or_def Let_def list_all_iff max_def min_def)

lemma digits_value_nonneg: "list_all is_digit ds \<Longrightarrow> 0 \<le> acc \<Longrightarrow> 0 \<le> digits_value acc ds"
  by (induction ds arbitrary: acc) (auto simp: is_digit_def digit_val_def code_def)

lemma nota_stored_shape:
  "\<exists>w. inscripciones_handleChange ''nota'' (JStr v) form = Inr (form(''nota'' \<mapsto> w))
       \<and> (w = JStr [] \<or> (\<exists>n. w = JNum (Fin n) \<and> 1 \<le> n \<and> n \<le> 10))"
  by (cases "parseInt (replace_outside is_digit v)")
     (auto simp add: inscripciones_handleChange_def js_or_def Let_def max_def min_def)

lemma code_zero: "code c = 48 \<Longrightarrow> c = CHR ''0''"
proof -
  assume "code c = 48"
  then have "(of_char c :: nat) = of_char (CHR ''0'')"
    by (simp add: code_def)
  then show ?thesis by (simp only: of_char_eq_iff)
qed

lemma digits_value_pos:
  "list_all is_digit ds \<Longrightarrow> 0 \<le> acc \<Longrightarrow> (0 < acc \<or> (\<exists>c\<in>set ds. c \<noteq> CHR ''0'')) \<Longrightarrow>
   0 < digits_value acc ds"
proof (induction ds arbitrary: acc)
  case Nil
  then show ?case by simp
next
  case (Cons c cs)
  from Cons.prems have c: "is_digit c" and cs: "list_all is_digit cs" by simp_all
  from c have lo: "48 \<le> code c"
    by (simp add: is_digit_def code_def [of "CHR ''0''"])
  then have dv: "0 \<le> digit_val c"
    by (simp add: digit_val_def)
  have dz: "0 < digit_val c" if "c \<noteq> CHR ''0''"
  proof -
    from that code_zero [of c] have "code c \<noteq> 48" by blast
    with lo have "48 < code c" by linarith
    then show ?thesis by (simp add: digit_val_def)
  qed
  show ?case
  proof (cases "0 < acc \<or> c \<noteq> CHR ''0''")
    case True
    with dv dz Cons.prems(2) have "0 < 10 * acc + digit_val c" by auto
    with Cons.IH [OF cs] show ?thesis by simp
  next
    case False
    with Cons.prems(3) have "\<exists>c\<in>set cs. c \<noteq> CHR ''0''" by auto
    moreover from dv Cons.prems(2) have "0 \<le> 10 * acc + digit_val c" by simp
    ultimately show ?thesis using Cons.IH [OF cs] by simp
  qed
qed

lemma strip_int_toString:
  "replace_outside is_digit (int_toString x) = nat_toString (nat \<bar>x\<bar>)"
proof -
  have "filter is_digit (nat_toString n) = nat_toString n" for n
    using nat_toString_digits [of n] by (simp add: list_all_iff)
  moreover have "\<not> is_digit (CHR ''-'')"
    by (simp add: is_digit_def code_def)
  ultimately show ?thesis
    by (simp add: replace_outside_filter int_toString_def)
qed

subsection \<open>The form after an edit\<close>

lemma profesor_obj_not_empty: "profesor_obj p \<noteq> empty_form"
proof
  assume "profesor_obj p = empty_form"
  then have "profesor_obj p ''id'' = empty_form ''id''" by simp
  then show False by (simp add: profesor_obj_def empty_form_def)
qed

subsection \<open>\<open>includes\<close> is substring containment\<close>

lemma starts_with_iff: "starts_with s t \<longleftrightarrow> (\<exists>rest. s = t @ rest)"
  by (induction s t rule: starts_with.induct) auto

lemma js_includes_iff: "js_includes s t \<longleftrightarrow> (\<exists>before after. s = before @ t @ after)"
proof (induction s)
  case Nil
  then show ?case by simp
next
  case (Cons x xs)
  show ?case
  proof
    assume "js_includes (x # xs) t"
    then consider "starts_with (x # xs) t" | "js_includes xs t" by auto
    then show "\<exists>before after. x # xs = before @ t @ after"
    proof cases
      case 1
      then obtain rest where "x # xs = t @ rest" by (auto simp: starts_with_iff)
      then have "x # xs = [] @ t @ rest" by simp
      then show ?thesis by blast
    next
      case 2
      with Cons.IH obtain b a where "xs = b @ t @ a" by blast
      then have "x # xs = (x # b) @ t @ a" by simp
      then show ?thesis by blast
    qed
  next
    assume "\<exists>before after. x # xs = before @ t @ after"
    then obtain b a where eq: "x # xs = b @ t @ a" by blast
    show "js_includes (x # xs) t"
    proof (cases b)
      case Nil
      with eq have "starts_with (x # xs) t" by (auto simp: starts_with_iff)
      then show ?thesis by simp
    next
      case (Cons y ys)
      with eq have "xs = ys @ t @ a" by simp
      with Cons.IH have "js_includes xs t" by blast
      then show ?thesis by simp
    qed
  qed
qed

lemma includes_lower_iff:
  "js_includes (toLowerCase field) (toLowerCase q) \<longleftrightarrow> spec_contains_ci field q"
proof
  assume "js_includes (toLowerCase field) (toLowerCase q)"
  then obtain b a where "map lower_char field = b @ map lower_char q @ a"
    by (auto simp: js_includes_iff toLowerCase_def)
  then have "\<exists>f1 r. field = f1 @ r \<and> b = map lower_char f1
                  \<and> map lower_char q @ a = map lower_char r"
    by (simp only: map_eq_append_conv)
  then obtain f1 r where f: "field = f1 @ r" and r: "map lower_char r = map lower_char q @ a"
    by metis
  from r have "\<exists>m f3. r = m @ f3 \<and> map lower_char q = map lower_char m \<and> a = map lower_char f3"
    by (simp only: map_eq_append_conv)
  then obtain m f3 where "r = m @ f3" and "map lower_char m = map lower_char q"
    by metis
  with f have "field = f1 @ m @ f3 \<and> toLowerCase m = toLowerCase q"
    by (simp add: toLowerCase_def)
  then show "spec_contains_ci field q"
    unfolding spec_contains_ci_def by blast
next
  assume "spec_contains_ci field q"
  then obtain b m a where "field = b @ m @ a" and "toLowerCase m = toLowerCase q"
    by (auto simp: spec_contains_ci_def)
  then have "toLowerCase field = toLowerCase b @ toLowerCase q @ toLowerCase a"
    by (simp add: toLowerCase_def)
  then show "js_includes (toLowerCase field) (toLowerCase q)"
    unfolding js_includes_iff by blast
qed

lemma nat_toString_inj: "nat_toString m = nat_toString n \<Longrightarrow> m = n"
proof -
  assume "nat_toString m = nat_toString n"
  then have "digits_value 0 (nat_toString m) = digits_value 0 (nat_toString n)" by simp
  then show ?thesis by (simp add: digits_value_nat_toString)
qed

lemma reference_iff:
  "(ref = [] \<or> (case teacher of None \<Rightarrow> False | Some p \<Rightarrow> nat_toString (profesor_id p) = ref))
     \<longleftrightarrow> spec_reference_matches ref teacher"
  by (cases teacher) (auto simp: spec_reference_matches_def)

lemma reference_exact:
  "spec_reference_matches (nat_toString k) teacher \<longleftrightarrow> (\<exists>p. teacher = Some p \<and> profesor_id p = k)"
  using nat_toString_nonempty [of k]
  by (auto simp: spec_reference_matches_def dest: nat_toString_inj)

subsection \<open>\<open>split\<close> at the first separator\<close>

lemma split_on_first:
  "sep \<notin> set d \<Longrightarrow> split_on sep (d @ sep # rest) = d # split_on sep rest"
  by (induction d) auto

text \<open>
  Claim C9. For every raw DNI input, the value the change handler stores under
  \<open>dni\<close> is the input with every non-digit character removed, cut to at most 8
  characters: only digits remain, in their original order, at most 8 of them; the
  input \<open>12a3!4\<close> is stored as \<open>1234\<close>.
\<close>

theorem dni_normalized:
  "\<exists>d. profesores_handleChange email_rx ''dni'' (JStr v) form = Inr (form(''dni'' \<mapsto> JStr d))
       \<and> d = take 8 (filter is_digit v)
       \<and> length d \<le> 8
       \<and> list_all is_digit d
       \<and> (profesores_handleChange email_rx ''dni'' (JStr ''12a3!4'') form
            = Inr (form(''dni'' \<mapsto> JStr ''1234'')))"
proof -
  have stored: "profesores_handleChange email_rx ''dni'' (JStr w) form
                  = Inr (form(''dni'' \<mapsto> JStr (take 8 (replace_outside is_digit w))))" for w
    by (simp add: profesores_handleChange_def substring_from_0 del: replace_outside.simps)
  have strip: "replace_outside is_digit ''12a3!4'' = ''1234''"
    by code_simp
  have ex: "profesores_handleChange email_rx ''dni'' (JStr ''12a3!4'') form
              = Inr (form(''dni'' \<mapsto> JStr ''1234''))"
    by (simp only: stored strip) simp
  have digs: "list_all is_digit (take 8 (filter is_digit v))"
    by (auto simp: list_all_iff dest: in_set_takeD)
  have len: "length (take 8 (filter is_digit v)) \<le> 8"
    by simp
  from stored [of v] ex digs len show ?thesis
    unfolding replace_outside_filter by blast
qed

text \<open>
  Claim C1, as amended. The change handler of the enrollment form with the search
  panel removes every non-digit character from a raw grade input and stores the
  number \<open>min(10, p)\<close> when the remaining digits have a value \<open>p\<close> other than 0, and
  the empty string otherwise. So the decimal writing of an integer \<open>x\<close> is stored as
  \<open>min(10, |x|)\<close>, or as the empty string when \<open>x\<close> is 0: an input above 10 is stored as
  10, an input below 0 loses its sign and is stored as a number between 1 and 10, and
  the input \<open>15\<close> is stored as the number 10, shown as \<open>10\<close>. The older copy of the
  handler stores the raw input unchanged.
\<close>

theorem nota_normalized:
  "inscripciones_handleChange ''nota'' (JStr v) form
     = Inr (form(''nota'' \<mapsto>
         (if digits_value 0 (filter is_digit v) = 0 then JStr []
          else JNum (Fin (min 10 (digits_value 0 (filter is_digit v)))))))
   \<and> inscripciones_handleChange ''nota'' (JStr (int_toString x)) form
       = Inr (form(''nota'' \<mapsto> (if x = 0 then JStr [] else JNum (Fin (min 10 \<bar>x\<bar>)))))
   \<and> (x < 0 \<or> 10 < x \<longrightarrow>
        (\<exists>n. inscripciones_handleChange ''nota'' (JStr (int_toString x)) form
                = Inr (form(''nota'' \<mapsto> JNum (Fin n)))
             \<and> 1 \<le> n \<and> n \<le> 10 \<and> (10 < x \<longrightarrow> n = 10) \<and> (x < 0 \<longrightarrow> n = min 10 (- x))))
   \<and> inscripciones_handleChange ''nota'' (JStr ''15'') form
        = Inr (form(''nota'' \<mapsto> JNum (Fin 10)))
   \<and> toString (JNum (Fin 10)) = ''10''
   \<and> inscripciones_legacy_handleChange ''nota'' (JStr v) form = form(''nota'' \<mapsto> JStr v)"
proof -
  let ?ds = "filter is_digit v"
  have all: "list_all is_digit ?ds"
    by (simp add: list_all_iff)
  have step: "inscripciones_handleChange ''nota'' (JStr v) form
                = inscripciones_handleChange ''nota'' (JStr ?ds) form"
    by (simp add: inscripciones_handleChange_def replace_outside_filter)
  have general: "inscripciones_handleChange ''nota'' (JStr v) form
     = Inr (form(''nota'' \<mapsto>
         (if digits_value 0 ?ds = 0 then JStr []
          else JNum (Fin (min 10 (digits_value 0 ?ds))))))"
  proof (cases "?ds = []")
    case True
    then show ?thesis
      by (simp add: inscripciones_handleChange_def replace_outside_filter parseInt_def js_or_def)
  next
    case False
    from digits_value_nonneg [OF all, of 0] have "0 \<le> digits_value 0 ?ds" by simp
    then have "digits_value 0 ?ds \<le> 0 \<longleftrightarrow> digits_value 0 ?ds = 0" by linarith
    with nota_of_digits [OF all False, of form] step show ?thesis by simp
  qed
  let ?m = "nat \<bar>x\<bar>"
  have "inscripciones_handleChange ''nota'' (JStr (int_toString x)) form
          = inscripciones_handleChange ''nota'' (JStr (nat_toString ?m)) form"
    by (simp add: inscripciones_handleChange_def strip_int_toString
        replace_outside_filter [symmetric] del: replace_outside_filter)
       (simp add: replace_outside_filter nat_toString_digits [unfolded list_all_iff])
  also have "\<dots> = Inr (form(''nota'' \<mapsto>
               (if int ?m \<le> 0 then JStr [] else JNum (Fin (min 10 (int ?m))))))"
    using nota_of_digits [OF nat_toString_digits nat_toString_nonempty, of ?m form]
    by (simp add: digits_value_nat_toString)
  also have "\<dots> = Inr (form(''nota'' \<mapsto> (if x = 0 then JStr [] else JNum (Fin (min 10 \<bar>x\<bar>)))))"
    by simp
  finally have literal: "inscripciones_handleChange ''nota'' (JStr (int_toString x)) form
       = Inr (form(''nota'' \<mapsto> (if x = 0 then JStr [] else JNum (Fin (min 10 \<bar>x\<bar>)))))" .
  have outside: "\<exists>n. inscripciones_handleChange ''nota'' (JStr (int_toString x)) form
                = Inr (form(''nota'' \<mapsto> JNum (Fin n)))
             \<and> 1 \<le> n \<and> n \<le> 10 \<and> (10 < x \<longrightarrow> n = 10) \<and> (x < 0 \<longrightarrow> n = min 10 (- x))"
    if out: "x < 0 \<or> 10 < x"
  proof -
    from out literal
    have "inscripciones_handleChange ''nota'' (JStr (int_toString x)) form
            = Inr (form(''nota'' \<mapsto> JNum (Fin (min 10 \<bar>x\<bar>))))"
      by auto
    moreover from out have "1 \<le> min 10 \<bar>x\<bar>" and "min 10 \<bar>x\<bar> \<le> 10"
      and "10 < x \<longrightarrow> min 10 \<bar>x\<bar> = 10" and "x < 0 \<longrightarrow> min 10 \<bar>x\<bar> = min 10 (- x)"
      by auto
    ultimately show ?thesis by blast
  qed
  have ex: "inscripciones_handleChange ''nota'' (JStr ''15'') form
        = Inr (form(''nota'' \<mapsto> JNum (Fin 10)))"
    by (simp add: inscripciones_handleChange_def parseInt_def is_digit_def is_space_def
        code_def digit_val_def js_or_def)
  have shown: "toString (JNum (Fin 10)) = ''10''"
    by code_simp
  have legacy: "inscripciones_legacy_handleChange ''nota'' (JStr v) form = form(''nota'' \<mapsto> JStr v)"
    by (simp add: inscripciones_legacy_handleChange_def)
  from general literal outside ex shown legacy show ?thesis by blast
qed

theorem nota_normalized_witness:
  "(10::int) < 15 \<and>
   (\<exists>n. inscripciones_handleChange ''nota'' (JStr (int_toString 15)) Map.empty
           = Inr (Map.empty(''nota'' \<mapsto> JNum (Fin n)))
         \<and> 1 \<le> n \<and> n \<le> 10 \<and> n = 10)"
  using nota_normalized [of "''15''" Map.empty 15] by simp

text \<open>
  Claim C1 as stated says that every grade input outside the range is clamped into
  it and that \<open>15\<close> becomes \<open>10\<close>. The older copy of the handler stores \<open>15\<close> as the
  string \<open>15\<close>; the handler that normalises stores \<open>-5\<close> as the number 5, where
  clamping \<open>-5\<close> into the range gives 0.
\<close>

theorem nota_not_clamped_counterexample:
  "inscripciones_legacy_handleChange ''nota'' (JStr ''15'') Map.empty
     = [''nota'' \<mapsto> JStr ''15'']
   \<and> JStr ''15'' \<noteq> JStr ''10'' \<and> JStr ''15'' \<noteq> JNum (Fin 10)
   \<and> inscripciones_handleChange ''nota'' (JStr ''-5'') Map.empty
       = Inr [''nota'' \<mapsto> JNum (Fin 5)]
   \<and> JNum (Fin 5) \<noteq> JNum (Fin (max 0 (min 10 (- 5))))"
proof -
  have "inscripciones_handleChange ''nota'' (JStr ''-5'') Map.empty
       = Inr [''nota'' \<mapsto> JNum (Fin 5)]"
    by (simp add: inscripciones_handleChange_def parseInt_def is_digit_def is_space_def
        code_def digit_val_def js_or_def)
  then show ?thesis
    by (simp add: inscripciones_legacy_handleChange_def)
qed

text \<open>
  Claim C10. In the enrollment form, every grade input whose digits parse to the
  number 0 is stored as the empty string, not as 0: the clamped result 0 is falsy and
  \<open>||\<close> replaces it by \<open>''\<close>. The input \<open>0\<close> is stored as the empty string, and no
  input at all makes the handler store the number 0.
\<close>

theorem nota_zero_becomes_empty:
  "(parseInt (replace_outside is_digit v) = Fin 0 \<longrightarrow>
      inscripciones_handleChange ''nota'' (JStr v) form = Inr (form(''nota'' \<mapsto> JStr [])))
   \<and> inscripciones_handleChange ''nota'' (JStr ''0'') form = Inr (form(''nota'' \<mapsto> JStr []))
   \<and> (\<forall>form'. inscripciones_handleChange ''nota'' (JStr u) form = Inr form' \<longrightarrow>
         form' ''nota'' \<noteq> Some (JNum (Fin 0)))"
proof -
  have zero: "inscripciones_handleChange ''nota'' (JStr v) form = Inr (form(''nota'' \<mapsto> JStr []))"
    if "parseInt (replace_outside is_digit v) = Fin 0"
    using that by (simp add: inscripciones_handleChange_def js_or_def)
  have ex: "inscripciones_handleChange ''nota'' (JStr ''0'') form = Inr (form(''nota'' \<mapsto> JStr []))"
    by (simp add: inscripciones_handleChange_def parseInt_def is_digit_def is_space_def
        code_def digit_val_def js_or_def)
  have never: "form' ''nota'' \<noteq> Some (JNum (Fin 0))"
    if "inscripciones_handleChange ''nota'' (JStr u) form = Inr form'" for form'
    using that nota_stored_shape [of u form] by auto
  from zero ex never show ?thesis by blast
qed

theorem nota_zero_becomes_empty_witness:
  "parseInt (replace_outside is_digit ''0'') = Fin 0 \<and>
   inscripciones_handleChange ''nota'' (JStr ''0'') Map.empty = Inr [''nota'' \<mapsto> JStr []] \<and>
   (\<exists>form'. inscripciones_handleChange ''nota'' (JStr ''7'') Map.empty = Inr form' \<and>
      form' ''nota'' \<noteq> Some (JNum (Fin 0)))"
proof -
  have p: "parseInt (replace_outside is_digit ''0'') = Fin 0"
    by (simp add: parseInt_def is_digit_def is_space_def code_def digit_val_def)
  have "\<exists>form'. inscripciones_handleChange ''nota'' (JStr ''7'') Map.empty = Inr form'"
    by (simp add: inscripciones_handleChange_def)
  with p nota_zero_becomes_empty [of "''0''" Map.empty "''7''"] show ?thesis by blast
qed

text \<open>
  Claim C2. The claim says that the Cursos form's change handler, for the field
  \<open>nombre\<close>, both strips the characters that are not letters or spaces and truncates.
  The handler computes the stripped string and then overwrites it with the
  truncation of the raw value, so the stored name is the first 50 characters of the
  raw input: \<open>Algebra 2!\<close> is stored unchanged, while stripping would leave
  \<open>Algebra \<close>, which is what the sibling search handler stores.
\<close>

theorem cursos_nombre_not_stripped:
  "cursos_handleChange ''nombre'' (JStr v) form = Inr (form(''nombre'' \<mapsto> JStr (take 50 v)))
   \<and> cursos_handleChange ''nombre'' (JStr ''Algebra 2!'') form
        = Inr (form(''nombre'' \<mapsto> JStr ''Algebra 2!''))
   \<and> replace_outside (\<lambda>c. is_letter c \<or> is_space c) ''Algebra 2!'' = ''Algebra ''
   \<and> cursos_handleSearchChange ''nombre'' (JStr ''Algebra 2!'') form
        = Inr (form(''nombre'' \<mapsto> JStr ''Algebra ''))"
proof -
  let ?cls = "\<lambda>c. is_letter c \<or> is_space c"
  have strip: "replace_outside ?cls ''Algebra 2!'' = ''Algebra ''"
    by code_simp
  have form_handler: "cursos_handleChange ''nombre'' (JStr w) form
                        = Inr (form(''nombre'' \<mapsto> JStr (take 50 w)))" for w
    by (simp add: cursos_handleChange_def substring_from_0)
  have search_handler: "cursos_handleSearchChange ''nombre'' (JStr w) form
                        = Inr (form(''nombre'' \<mapsto> JStr (take 50 (replace_outside ?cls w))))" for w
    by (simp add: cursos_handleSearchChange_def substring_from_0 del: replace_outside.simps)
  have "take 50 ''Algebra 2!'' = ''Algebra 2!''" and "take 50 ''Algebra '' = ''Algebra ''"
    by simp_all
  with form_handler [of v] form_handler [of "''Algebra 2!''"]
    search_handler [of "''Algebra 2!''"] strip
  show ?thesis by (simp only: simp_thms)
qed


text \<open>
  Claim C3, as amended. For every teacher and every state, starting an edit and
  then pressing the form's \<open>Cancelar\<close> button issues no API call, clears the editing
  flag and leaves the list untouched; the form keeps the teacher's data that the
  edit loaded, so it is not the empty payload.
\<close>

theorem edit_then_cancel:
  "fst (handleEdit p s) = []
   \<and> fst (cancelar_onClick (snd (handleEdit p s))) = []
   \<and> snd (cancelar_onClick (snd (handleEdit p s))) = s\<lparr>st_editing := None, st_form := profesor_obj p\<rparr>
   \<and> st_editing (snd (cancelar_onClick (snd (handleEdit p s)))) = None
   \<and> st_form (snd (cancelar_onClick (snd (handleEdit p s)))) = profesor_obj p
   \<and> st_form (snd (cancelar_onClick (snd (handleEdit p s)))) \<noteq> empty_form
   \<and> st_profesores (snd (cancelar_onClick (snd (handleEdit p s)))) = st_profesores s"
  by (simp add: cancelar_onClick_def handleEdit_def profesor_obj_not_empty)

text \<open>
  Claim C3 as stated says that the cancel restores the form to the empty payload.
  Editing a teacher from the initial state and cancelling leaves the form holding
  that teacher.
\<close>

theorem edit_cancel_keeps_form_counterexample:
  "st_form (snd (cancelar_onClick (snd (handleEdit
      \<lparr>profesor_id = 1, profesor_dni = ''12345678'', profesor_nombre = ''Ana'',
       profesor_apellido = ''Paz'', profesor_email = ''ana@uni.edu'',
       profesor_profesion = ''Fisica'', profesor_telefono = ''555''\<rparr>
      \<lparr>st_profesores = [], st_editing = None, st_form = empty_form, st_error = None,
       st_open = False, st_idEliminar = None,
       st_search = \<lparr>search_dni = [], search_nombre = [], search_apellido = [],
                     search_email = [], search_profesion = [], search_telefono = []\<rparr>\<rparr>))))
   \<noteq> empty_form"
proof
  assume eq: "st_form (snd (cancelar_onClick (snd (handleEdit
      \<lparr>profesor_id = 1, profesor_dni = ''12345678'', profesor_nombre = ''Ana'',
       profesor_apellido = ''Paz'', profesor_email = ''ana@uni.edu'',
       profesor_profesion = ''Fisica'', profesor_telefono = ''555''\<rparr>
      \<lparr>st_profesores = [], st_editing = None, st_form = empty_form, st_error = None,
       st_open = False, st_idEliminar = None,
       st_search = \<lparr>search_dni = [], search_nombre = [], search_apellido = [],
                     search_email = [], search_profesion = [], search_telefono = []\<rparr>\<rparr>))))
   = empty_form"
  have "st_form (snd (cancelar_onClick (snd (handleEdit p s)))) = profesor_obj p" for p s
    by (simp add: cancelar_onClick_def handleEdit_def)
  with eq profesor_obj_not_empty show False by simp
qed

text \<open>
  Claim C4. A click on the dialog's \<open>Eliminar\<close> button issues exactly one delete
  call, for the identifier that \<open>handleDelete\<close> captured, and the dialog is closed
  afterwards whether the call resolved or was rejected; the dialog's \<open>Cancelar\<close>
  button closes the dialog and issues no call.
\<close>

theorem confirm_issues_one_delete:
  "filter is_delete_call (fst (eliminarProfesor deleted listed s))
     = [ApiDelete (''/profesores/'' @ id_text (st_idEliminar s))]
   \<and> \<not> st_open (snd (eliminarProfesor deleted listed s))
   \<and> st_open (snd (handleDelete i s))
   \<and> filter is_delete_call (fst (eliminarProfesor deleted listed (snd (handleDelete i s))))
       = [ApiDelete (''/profesores/'' @ nat_toString i)]
   \<and> \<not> st_open (snd (eliminarProfesor deleted listed (snd (handleDelete i s))))
   \<and> fst (dialog_cancelar_onClick (snd (handleDelete i s))) = []
   \<and> \<not> st_open (snd (dialog_cancelar_onClick (snd (handleDelete i s))))"
proof -
  have one: "filter is_delete_call (fst (eliminarProfesor deleted listed t))
     = [ApiDelete (''/profesores/'' @ id_text (st_idEliminar t))]" for t
    by (cases deleted) (simp_all add: eliminarProfesor_def loadProfesores_def)
  have closed: "\<not> st_open (snd (eliminarProfesor deleted listed t))" for t
    by (cases deleted; cases listed) (simp_all add: eliminarProfesor_def loadProfesores_def)
  have captured: "st_idEliminar (snd (handleDelete i s)) = Some i" "st_open (snd (handleDelete i s))"
    by (simp_all add: handleDelete_def)
  have cancel: "fst (dialog_cancelar_onClick t) = []" "\<not> st_open (snd (dialog_cancelar_onClick t))" for t
    by (simp_all add: dialog_cancelar_onClick_def)
  from one [of s] one [of "snd (handleDelete i s)"] closed captured cancel show ?thesis
    by (simp add: id_text_def)
qed

text \<open>
  Claim C5. When the create or update call is rejected, \<open>handleSubmit\<close> changes only
  the error message: the form payload and the editing flag are what they were, the
  single call issued was the write, and submitting again issues the same call.
\<close>

theorem failed_save_keeps_form:
  "st_form (snd (handleSubmit (Rejected msg) listed s)) = st_form s
   \<and> st_editing (snd (handleSubmit (Rejected msg) listed s)) = st_editing s
   \<and> snd (handleSubmit (Rejected msg) listed s)
       = s\<lparr>st_error := Some ''Error al guardar profesor. Verifica que los datos sean correctos.''\<rparr>
   \<and> fst (handleSubmit (Rejected msg) listed s)
       = [if is_editing (st_editing s)
          then ApiPut (''/profesores/'' @ id_text (st_editing s)) (st_form s)
          else ApiPost ''/profesores'' (st_form s)]
   \<and> fst (handleSubmit (Rejected msg') listed' (snd (handleSubmit (Rejected msg) listed s)))
       = fst (handleSubmit (Rejected msg) listed s)"
  by (simp add: handleSubmit_def)

text \<open>
  Claim C6. For every enrollment read from the API whose \<open>fecha\<close> is a date part
  without a \<open>T\<close>, then a \<open>T\<close>, then the rest, starting an edit sets the editing flag to
  the enrollment's identifier and fills the form with \<open>cursoId = curso.id\<close>,
  \<open>estudianteId = estudiante.id\<close>, \<open>nota\<close> unchanged and \<open>fecha\<close> the date part.
\<close>

theorem edit_flattens_enrollment:
  "inscripcion_fecha i = d @ CHR ''T'' # rest \<Longrightarrow> CHR ''T'' \<notin> set d \<Longrightarrow>
   inscripciones_handleEdit i =
     (Some (inscripcion_id i),
      [''cursoId'' \<mapsto> JNum (Fin (int (curso_id (inscripcion_curso i)))),
       ''estudianteId'' \<mapsto> JNum (Fin (int (estudiante_id (inscripcion_estudiante i)))),
       ''nota'' \<mapsto> inscripcion_nota i,
       ''fecha'' \<mapsto> JStr d])"
  by (simp add: inscripciones_handleEdit_def split_on_first first_element_def)

text \<open>The scenario of the specification: \<open>2024-03-01T00:00:00Z\<close> yields \<open>2024-03-01\<close>.\<close>

theorem edit_flattens_enrollment_witness:
  "inscripciones_handleEdit
     \<lparr>inscripcion_id = 7,
      inscripcion_curso = \<lparr>curso_id = 2, curso_nombre = ''Algebra'', curso_descripcion = [],
                           curso_profesor = None\<rparr>,
      inscripcion_estudiante = \<lparr>estudiante_id = 5, estudiante_dni = ''12345678'',
                                estudiante_nombre = ''Ana'', estudiante_apellido = ''Paz'',
                                estudiante_email = ''ana@uni.edu''\<rparr>,
      inscripcion_nota = JNum (Fin 8),
      inscripcion_fecha = ''2024-03-01T00:00:00Z''\<rparr>
   = (Some 7,
      [''cursoId'' \<mapsto> JNum (Fin 2), ''estudianteId'' \<mapsto> JNum (Fin 5),
       ''nota'' \<mapsto> JNum (Fin 8), ''fecha'' \<mapsto> JStr ''2024-03-01''])"
  using edit_flattens_enrollment [of
     "\<lparr>inscripcion_id = 7,
      inscripcion_curso = \<lparr>curso_id = 2, curso_nombre = ''Algebra'', curso_descripcion = [],
                           curso_profesor = None\<rparr>,
      inscripcion_estudiante = \<lparr>estudiante_id = 5, estudiante_dni = ''12345678'',
                                estudiante_nombre = ''Ana'', estudiante_apellido = ''Paz'',
                                estudiante_email = ''ana@uni.edu''\<rparr>,
      inscripcion_nota = JNum (Fin 8),
      inscripcion_fecha = ''2024-03-01T00:00:00Z''\<rparr>" "''2024-03-01''" "''00:00:00Z''"]
  by simp

text \<open>
  Claim C7. For every list and every search state, the filtered list of
  \<open>Profesores\<close> keeps exactly the teachers for which every search field is contained,
  up to letter case, in the teacher's field of the same name; the filtered list of
  \<open>Cursos\<close> does the same for \<open>nombre\<close> and \<open>descripcion\<close>, and its selector
  \<open>profesorId\<close> is skipped when empty and otherwise keeps exactly the courses whose
  teacher has the selected identifier.
\<close>

theorem filter_is_conjunction:
  "filteredProfesores ps q = filter (spec_matches_profesor q) ps
   \<and> filteredCursos cs cq = filter (spec_matches_curso cq) cs
   \<and> filteredCursos cs (cq\<lparr>search_profesorId := []\<rparr>)
       = filter (\<lambda>c. spec_contains_ci (curso_nombre c) (search_curso_nombre cq) \<and>
                     spec_contains_ci (curso_descripcion c) (search_curso_descripcion cq)) cs
   \<and> filteredCursos cs (cq\<lparr>search_profesorId := nat_toString k\<rparr>)
       = filter (\<lambda>c. spec_contains_ci (curso_nombre c) (search_curso_nombre cq) \<and>
                     spec_contains_ci (curso_descripcion c) (search_curso_descripcion cq) \<and>
                     (\<exists>p. curso_profesor c = Some p \<and> profesor_id p = k)) cs"
proof -
  have p: "filteredProfesores ps q = filter (spec_matches_profesor q) ps"
    unfolding filteredProfesores_def
    by (rule filter_cong [OF refl]) (simp add: spec_matches_profesor_def includes_lower_iff)
  have c: "filteredCursos cs x = filter (spec_matches_curso x) cs" for x
    unfolding filteredCursos_def
    by (rule filter_cong [OF refl])
       (simp add: spec_matches_curso_def includes_lower_iff reference_iff)
  have e: "filter (spec_matches_curso (cq\<lparr>search_profesorId := []\<rparr>)) cs
       = filter (\<lambda>c. spec_contains_ci (curso_nombre c) (search_curso_nombre cq) \<and>
                     spec_contains_ci (curso_descripcion c) (search_curso_descripcion cq)) cs"
    by (rule filter_cong [OF refl]) (simp add: spec_matches_curso_def spec_reference_matches_def)
  have k: "filter (spec_matches_curso (cq\<lparr>search_profesorId := nat_toString k\<rparr>)) cs
       = filter (\<lambda>c. spec_contains_ci (curso_nombre c) (search_curso_nombre cq) \<and>
                     spec_contains_ci (curso_descripcion c) (search_curso_descripcion cq) \<and>
                     (\<exists>p. curso_profesor c = Some p \<and> profesor_id p = k)) cs"
    by (rule filter_cong [OF refl]) (simp add: spec_matches_curso_def reference_exact)
  from p c [of cq] c [of "cq\<lparr>search_profesorId := []\<rparr>"] e
    c [of "cq\<lparr>search_profesorId := nat_toString k\<rparr>"] k
  show ?thesis by (simp only: simp_thms)
qed

text \<open>
  Claim C8. Filtering an already filtered list with the same search state changes
  nothing.
\<close>

theorem filter_idempotent:
  "filteredProfesores (filteredProfesores ps q) q = filteredProfesores ps q
   \<and> filteredCursos (filteredCursos cs cq) cq = filteredCursos cs cq"
  by (simp add: filteredProfesores_def filteredCursos_def)

end
